theory Spec2Isabelle
  imports Complex_Main "HOL-Library.Word"
begin

section \<open>Python values\<close>

text \<open>
  The handler of \<^verbatim>\<open>src/lambda/index.py\<close> receives the API Gateway event as a
  deserialised JSON document and answers with a dictionary. A Python \<^verbatim>\<open>str\<close> is a
  sequence of code points, so it is a list of naturals here; \<open>pstr\<close> turns an ASCII
  literal of the source into such a list.
\<close>

type_synonym pystr = "nat list"

definition pstr :: "string \<Rightarrow> pystr" where
  "pstr s = map of_char s"

datatype pyfloat = Finite rat | Infinite bool | NaN

record datetime =
  year :: nat
  month :: nat
  day :: nat
  hour :: nat
  minute :: nat
  second :: nat
  microsecond :: nat

datatype pyval =
    PNone
  | PBool bool
  | PInt int
  | PFloat pyfloat
  | PStr pystr
  | PList "pyval list"
  | PDict "(pystr \<times> pyval) list"

text \<open>Truth value testing, as \<^verbatim>\<open>not x\<close> and \<^verbatim>\<open>x or y\<close> use it.\<close>

fun truthy :: "pyval \<Rightarrow> bool" where
  "truthy PNone = False"
| "truthy (PBool b) = b"
| "truthy (PInt i) = (i \<noteq> 0)"
| "truthy (PFloat (Finite r)) = (r \<noteq> 0)"
| "truthy (PFloat (Infinite s)) = True"
| "truthy (PFloat NaN) = True"
| "truthy (PStr s) = (s \<noteq> [])"
| "truthy (PList xs) = (xs \<noteq> [])"
| "truthy (PDict kvs) = (kvs \<noteq> [])"

text \<open>
  Exceptions: the class and the text of \<^verbatim>\<open>str(e)\<close>. All of them are subclasses of
  \<^verbatim>\<open>Exception\<close>; the handlers of the source tell apart \<^verbatim>\<open>json.JSONDecodeError\<close>
  and the S3 client's \<^verbatim>\<open>NoSuchKey\<close> only.
\<close>

datatype exkind =
    AttributeError
  | TypeError
  | KeyError
  | ValueError
  | UnicodeEncodeError
  | JSONDecodeError
  | NoSuchKey
  | ClientError
  | OtherException

datatype exn = Exn exkind pystr

definition bnd :: "exn + 'a \<Rightarrow> ('a \<Rightarrow> exn + 'b) \<Rightarrow> exn + 'b" where
  "bnd m f = (case m of Inl e \<Rightarrow> Inl e | Inr x \<Rightarrow> f x)"

text \<open>\<^verbatim>\<open>d.get(k, default)\<close>: only a dict has the method.\<close>

definition dict_get :: "pyval \<Rightarrow> pystr \<Rightarrow> pyval \<Rightarrow> exn + pyval" where
  "dict_get d k dflt =
     (case d of
        PDict kvs \<Rightarrow> Inr (case map_of kvs k of Some v \<Rightarrow> v | None \<Rightarrow> dflt)
      | _ \<Rightarrow> Inl (Exn AttributeError (pstr ''get'')))"

text \<open>\<^verbatim>\<open>d[k]\<close> with a string key.\<close>

definition subscript :: "pyval \<Rightarrow> pystr \<Rightarrow> exn + pyval" where
  "subscript d k =
     (case d of
        PDict kvs \<Rightarrow> (case map_of kvs k of Some v \<Rightarrow> Inr v | None \<Rightarrow> Inl (Exn KeyError k))
      | _ \<Rightarrow> Inl (Exn TypeError k))"

text \<open>\<^verbatim>\<open>s.startswith(p)\<close> on strings.\<close>

definition startswith :: "pystr \<Rightarrow> pystr \<Rightarrow> bool" where
  "startswith s p = (take (length p) s = p)"

section \<open>Responses\<close>

text \<open>
  The \<^verbatim>\<open>body\<close> of a response is the value handed to \<^verbatim>\<open>json.dumps\<close>; the
  serialisation itself is not modelled. Output of \<^verbatim>\<open>print\<close> goes to the log, is
  no part of a response, and is left out.
\<close>

record response =
  statusCode :: int
  headers :: "(pystr \<times> pystr) list"
  body :: pyval

definition std_headers :: "(pystr \<times> pystr) list" where
  "std_headers =
     [(pstr ''Content-Type'', pstr ''application/json''),
      (pstr ''Access-Control-Allow-Origin'', pstr ''*'')]"

definition error_response :: "int \<Rightarrow> string \<Rightarrow> response" where
  "error_response code msg =
     \<lparr>statusCode = code, headers = std_headers,
      body = PDict [(pstr ''error'', PStr (pstr msg))]\<rparr>"

section \<open>The world outside the handler\<close>

text \<open>
  Everything the code reads from its surroundings: the process environment, the clock
  (\<open>now env n\<close> is the reading of the \<open>n\<close>-th call of \<^verbatim>\<open>datetime.now()\<close> in an
  invocation), the random UUID, the boto3 clients and the library decoders of the body.
  \<open>boto3_client\<close> is \<open>None\<close> when \<^verbatim>\<open>boto3.client(name)\<close> returns a client and the
  exception otherwise. The keyword arguments of the two presigning calls are passed as
  a dict. A \<open>head_response\<close> is the answer of \<^verbatim>\<open>head_object\<close> with the four entries
  the code reads (an entry that is missing is \<open>None\<close>); \<open>LastModified\<close> holds the text
  that \<^verbatim>\<open>response['LastModified'].isoformat()\<close> gives.
\<close>

record head_response =
  Metadata :: "(pystr \<times> pystr) list option"
  ContentLength :: "int option"
  ContentType :: "pystr option"
  LastModified :: "pystr option"

record env =
  environ :: "pystr \<Rightarrow> pystr option"
  now :: "nat \<Rightarrow> datetime"
  uuid4 :: "128 word"
  boto3_client :: "pystr \<Rightarrow> exn option"
  get_secret_value :: "pystr \<Rightarrow> exn + pyval"
  json_loads :: "pyval \<Rightarrow> exn + pyval"
  b64decode_utf8 :: "pyval \<Rightarrow> exn + pystr"
  generate_presigned_post :: "pyval \<Rightarrow> exn + pyval"
  s3_generate_presigned_url :: "pyval \<Rightarrow> exn + pyval"
  head_object :: "pystr \<Rightarrow> pystr \<Rightarrow> exn + head_response"

section \<open>authenticate_request\<close>

text \<open>
  The source returns \<^verbatim>\<open>(True, None)\<close> or \<^verbatim>\<open>(False, response)\<close>; these are
  \<open>Authenticated\<close> and \<open>Rejected response\<close>.
\<close>

datatype auth_result = Authenticated | Rejected response

text \<open>Lines 13-14: \<^verbatim>\<open>headers.get('Authorization') or headers.get('authorization')\<close>.\<close>

definition auth_header_of :: "pyval \<Rightarrow> exn + pyval" where
  "auth_header_of event =
     bnd (dict_get event (pstr ''headers'') (PDict [])) (\<lambda>hdrs.
     bnd (dict_get hdrs (pstr ''Authorization'') PNone) (\<lambda>h.
       if truthy h then Inr h else dict_get hdrs (pstr ''authorization'') PNone))"

text \<open>Lines 47-49, the body of the \<^verbatim>\<open>try\<close> up to the lookup of the secret.\<close>

definition fetch_shared_secret :: "env \<Rightarrow> pystr \<Rightarrow> exn + pyval" where
  "fetch_shared_secret env secret_arn =
     bnd (get_secret_value env secret_arn) (\<lambda>secret_response.
     bnd (subscript secret_response (pstr ''SecretString'')) (\<lambda>secret_string.
     bnd (json_loads env secret_string) (\<lambda>secret_data.
       dict_get secret_data (pstr ''shared_secret'') PNone)))"

definition authenticate_request :: "env \<Rightarrow> pyval \<Rightarrow> pystr \<Rightarrow> exn + auth_result" where
  "authenticate_request env event secret_arn =
     bnd (auth_header_of event) (\<lambda>auth_header.
       if \<not> truthy auth_header then
         Inr (Rejected (error_response 401 ''Missing Authorization header''))
       else
         (case auth_header of
            PStr s \<Rightarrow>
              if \<not> startswith s (pstr ''Bearer '') then
                Inr (Rejected (error_response 401
                  ''Invalid Authorization header format. Expected: Bearer <token>''))
              else
                (let provided_token = drop 7 s in
                 case boto3_client env (pstr ''secretsmanager'') of
                   Some e \<Rightarrow> Inl e
                 | None \<Rightarrow>
                     (case fetch_shared_secret env secret_arn of
                        Inl e \<Rightarrow>
                          Inr (Rejected (error_response 500
                            ''Failed to retrieve authentication secret''))
                      | Inr expected_secret \<Rightarrow>
                          if \<not> truthy expected_secret then
                            Inr (Rejected (error_response 500
                              ''Shared secret not found in Secrets Manager''))
                          else if PStr provided_token \<noteq> expected_secret then
                            Inr (Rejected (error_response 401
                              ''Invalid authentication token''))
                          else Inr Authenticated))
          | _ \<Rightarrow> Inl (Exn AttributeError (pstr ''startswith''))))"

section \<open>Formatting the key: strftime, isoformat, str(uuid)\<close>

fun dec :: "nat \<Rightarrow> pystr" where
  "dec n = (if n < 10 then [48 + n] else dec (n div 10) @ [48 + n mod 10])"

declare dec.simps [simp del]

definition zfill :: "nat \<Rightarrow> nat \<Rightarrow> pystr" where
  "zfill w n = replicate (w - length (dec n)) 48 @ dec n"

text \<open>\<^verbatim>\<open>strftime('%Y%m%d_%H%M%S')\<close>; the C library writes the year without padding.\<close>

definition strftime :: "datetime \<Rightarrow> pystr" where
  "strftime t =
     dec (year t) @ zfill 2 (month t) @ zfill 2 (day t) @ pstr ''_'' @
     zfill 2 (hour t) @ zfill 2 (minute t) @ zfill 2 (second t)"

definition isoformat :: "datetime \<Rightarrow> pystr" where
  "isoformat t =
     zfill 4 (year t) @ pstr ''-'' @ zfill 2 (month t) @ pstr ''-'' @ zfill 2 (day t) @
     pstr ''T'' @ zfill 2 (hour t) @ pstr '':'' @ zfill 2 (minute t) @ pstr '':'' @
     zfill 2 (second t) @
     (if microsecond t = 0 then [] else pstr ''.'' @ zfill 6 (microsecond t))"

definition hex_lower :: "nat \<Rightarrow> nat" where
  "hex_lower d = (if d < 10 then 48 + d else 87 + d)"

definition hex_pad :: "nat \<Rightarrow> nat \<Rightarrow> pystr" where
  "hex_pad w n = map (\<lambda>i. hex_lower ((n div 16 ^ (w - 1 - i)) mod 16)) [0..<w]"

text \<open>\<^verbatim>\<open>str(u)\<close> of a UUID: 32 hexadecimal digits in groups of 8-4-4-4-12.\<close>

definition uuid_str :: "128 word \<Rightarrow> pystr" where
  "uuid_str u =
     (let h = hex_pad 32 (unat u) in
      take 8 h @ pstr ''-'' @ take 4 (drop 8 h) @ pstr ''-'' @ take 4 (drop 12 h) @
      pstr ''-'' @ take 4 (drop 16 h) @ pstr ''-'' @ drop 20 h)"

section \<open>urllib.parse: quote and unquote\<close>

text \<open>
  The two functions of the standard library the code calls on the file name, as
  CPython defines them. \<^verbatim>\<open>quote\<close> encodes the string as UTF-8 (strictly: a surrogate
  raises) and writes every byte outside the always-safe set and \<open>safe\<close> as \<^verbatim>\<open>%XX\<close>.
\<close>

definition utf8_char :: "nat \<Rightarrow> nat list option" where
  "utf8_char c =
     (if c < 0x80 then Some [c]
      else if c < 0x800 then Some [0xC0 + c div 64, 0x80 + c mod 64]
      else if c < 0x10000 then
        (if 0xD800 \<le> c \<and> c \<le> 0xDFFF then None
         else Some [0xE0 + c div 4096, 0x80 + (c div 64) mod 64, 0x80 + c mod 64])
      else if c < 0x110000 then
        Some [0xF0 + c div 262144, 0x80 + (c div 4096) mod 64,
              0x80 + (c div 64) mod 64, 0x80 + c mod 64]
      else None)"

fun utf8_encode :: "pystr \<Rightarrow> exn + nat list" where
  "utf8_encode [] = Inr []"
| "utf8_encode (c # cs) =
     (case utf8_char c of
        None \<Rightarrow> Inl (Exn UnicodeEncodeError (pstr ''surrogates not allowed''))
      | Some bs \<Rightarrow> bnd (utf8_encode cs) (\<lambda>rest. Inr (bs @ rest)))"

definition always_safe :: "nat \<Rightarrow> bool" where
  "always_safe b =
     ((65 \<le> b \<and> b \<le> 90) \<or> (97 \<le> b \<and> b \<le> 122) \<or> (48 \<le> b \<and> b \<le> 57) \<or>
      b = 95 \<or> b = 46 \<or> b = 45 \<or> b = 126)"

definition hex_upper :: "nat \<Rightarrow> nat" where
  "hex_upper d = (if d < 10 then 48 + d else 55 + d)"

definition quoter :: "nat list \<Rightarrow> nat \<Rightarrow> pystr" where
  "quoter safe b =
     (if always_safe b \<or> b \<in> set safe then [b]
      else [37, hex_upper (b div 16), hex_upper (b mod 16)])"

definition quote_from_bytes :: "nat list \<Rightarrow> nat list \<Rightarrow> pystr" where
  "quote_from_bytes bs safe =
     (if bs = [] then []
      else
        (let safe' = filter (\<lambda>c. c < 128) safe in
         if list_all (\<lambda>b. always_safe b \<or> b \<in> set safe') bs then bs
         else concat (map (quoter safe') bs)))"

definition quote_py :: "pystr \<Rightarrow> pystr \<Rightarrow> exn + pystr" where
  "quote_py string safe =
     (if string = [] then Inr string
      else bnd (utf8_encode string) (\<lambda>bs. Inr (quote_from_bytes bs safe)))"

text \<open>
  \<^verbatim>\<open>unquote\<close> returns a string without \<^verbatim>\<open>%\<close> as it is. Otherwise every maximal run of
  ASCII characters is percent-decoded to bytes (\<^verbatim>\<open>unquote_to_bytes\<close>: a \<^verbatim>\<open>%\<close> that two
  hexadecimal digits do not follow stays) and the bytes are decoded as UTF-8 with
  \<^verbatim>\<open>errors='replace'\<close>; the characters between the runs stay.
\<close>

definition hexval :: "nat \<Rightarrow> nat option" where
  "hexval c =
     (if 48 \<le> c \<and> c \<le> 57 then Some (c - 48)
      else if 97 \<le> c \<and> c \<le> 102 then Some (c - 87)
      else if 65 \<le> c \<and> c \<le> 70 then Some (c - 55)
      else None)"

fun unquote_to_bytes :: "pystr \<Rightarrow> nat list" where
  "unquote_to_bytes (c # a # b # r) =
     (if c = 37 then
        (case (hexval a, hexval b) of
           (Some x, Some y) \<Rightarrow> (16 * x + y) # unquote_to_bytes r
         | _ \<Rightarrow> 37 # unquote_to_bytes (a # b # r))
      else c # unquote_to_bytes (a # b # r))"
| "unquote_to_bytes cs = cs"

definition cont :: "nat \<Rightarrow> bool" where
  "cont b = (0x80 \<le> b \<and> b \<le> 0xBF)"

definition second3 :: "nat \<Rightarrow> nat \<Rightarrow> bool" where
  "second3 b b1 =
     (if b = 0xE0 then 0xA0 \<le> b1 \<and> b1 \<le> 0xBF
      else if b = 0xED then 0x80 \<le> b1 \<and> b1 \<le> 0x9F
      else cont b1)"

definition second4 :: "nat \<Rightarrow> nat \<Rightarrow> bool" where
  "second4 b b1 =
     (if b = 0xF0 then 0x90 \<le> b1 \<and> b1 \<le> 0xBF
      else if b = 0xF4 then 0x80 \<le> b1 \<and> b1 \<le> 0x8F
      else cont b1)"

text \<open>
  One step of the decoder on \<open>b # bs\<close>: the code point it yields and how many bytes of
  \<open>bs\<close> it takes with \<open>b\<close>. An ill-formed or truncated sequence yields U+FFFD for its
  longest well-formed beginning.
\<close>

definition utf8_step :: "nat \<Rightarrow> nat list \<Rightarrow> nat \<times> nat" where
  "utf8_step b bs =
     (if b < 0x80 then (b, 0)
      else if 0xC2 \<le> b \<and> b \<le> 0xDF then
        (case bs of
           [] \<Rightarrow> (0xFFFD, 0)
         | b1 # r1 \<Rightarrow>
             if cont b1 then ((b - 0xC0) * 64 + (b1 - 0x80), 1) else (0xFFFD, 0))
      else if 0xE0 \<le> b \<and> b \<le> 0xEF then
        (case bs of
           [] \<Rightarrow> (0xFFFD, 0)
         | b1 # r1 \<Rightarrow>
             if \<not> second3 b b1 then (0xFFFD, 0)
             else
               (case r1 of
                  [] \<Rightarrow> (0xFFFD, 1)
                | b2 # r2 \<Rightarrow>
                    if cont b2 then
                      ((b - 0xE0) * 4096 + (b1 - 0x80) * 64 + (b2 - 0x80), 2)
                    else (0xFFFD, 1)))
      else if 0xF0 \<le> b \<and> b \<le> 0xF4 then
        (case bs of
           [] \<Rightarrow> (0xFFFD, 0)
         | b1 # r1 \<Rightarrow>
             if \<not> second4 b b1 then (0xFFFD, 0)
             else
               (case r1 of
                  [] \<Rightarrow> (0xFFFD, 1)
                | b2 # r2 \<Rightarrow>
                    if \<not> cont b2 then (0xFFFD, 1)
                    else
                      (case r2 of
                         [] \<Rightarrow> (0xFFFD, 2)
                       | b3 # r3 \<Rightarrow>
                           if cont b3 then
                             ((b - 0xF0) * 262144 + (b1 - 0x80) * 4096 +
                              (b2 - 0x80) * 64 + (b3 - 0x80), 3)
                           else (0xFFFD, 2))))
      else (0xFFFD, 0))"

function utf8_decode_replace :: "nat list \<Rightarrow> pystr" where
  "utf8_decode_replace [] = []"
| "utf8_decode_replace (b # bs) =
     fst (utf8_step b bs) # utf8_decode_replace (drop (snd (utf8_step b bs)) bs)"
  by pat_completeness auto
termination
  by (relation "measure length") auto

fun unquote_runs :: "pystr \<Rightarrow> pystr \<Rightarrow> pystr" where
  "unquote_runs acc [] = utf8_decode_replace (unquote_to_bytes acc)"
| "unquote_runs acc (c # cs) =
     (if c < 128 then unquote_runs (acc @ [c]) cs
      else utf8_decode_replace (unquote_to_bytes acc) @ c # unquote_runs [] cs)"

definition unquote_py :: "pystr \<Rightarrow> pystr" where
  "unquote_py string = (if 37 \<notin> set string then string else unquote_runs [] string)"

section \<open>generate_presigned_url\<close>

text \<open>
  Lines 95-98 (and 251-254): the two settings, or \<open>None\<close> when
  \<^verbatim>\<open>not bucket_name or not secret_arn\<close> holds (a setting is missing or empty).
\<close>

definition read_config :: "env \<Rightarrow> (pystr \<times> pystr) option" where
  "read_config env =
     (case (environ env (pstr ''BUCKET_NAME''), environ env (pstr ''SECRET_ARN'')) of
        (Some bucket_name, Some secret_arn) \<Rightarrow>
          if bucket_name = [] \<or> secret_arn = [] then None
          else Some (bucket_name, secret_arn)
      | _ \<Rightarrow> None)"

text \<open>
  Lines 116-119 (and 272-275): the body of the event, base64-decoded when the event
  says so.
\<close>

definition request_body :: "env \<Rightarrow> pyval \<Rightarrow> exn + pyval" where
  "request_body env event =
     bnd (dict_get event (pstr ''body'') (PStr [])) (\<lambda>body.
     bnd (dict_get event (pstr ''isBase64Encoded'') (PBool False)) (\<lambda>flag.
       if truthy flag then bnd (b64decode_utf8 env body) (\<lambda>s. Inr (PStr s))
       else Inr body))"

text \<open>
  Lines 121-133 (and 277-289): the body parsed as JSON when it is not empty. The result
  is the 400 response of the \<^verbatim>\<open>except json.JSONDecodeError\<close> branch or
  \<^verbatim>\<open>request_data\<close>; any other exception leaves the function.
\<close>

definition parse_request_body :: "env \<Rightarrow> pyval \<Rightarrow> exn + (response + pyval)" where
  "parse_request_body env event =
     bnd (request_body env event) (\<lambda>body.
       if truthy body then
         (case json_loads env body of
            Inl (Exn k m) \<Rightarrow>
              if k = JSONDecodeError then
                Inr (Inl (error_response 400 ''Invalid JSON in request body''))
              else Inl (Exn k m)
          | Inr request_data \<Rightarrow> Inr (Inr request_data))
       else Inr (Inr (PDict [])))"

definition max_file_size :: int where
  "max_file_size = 10 * 1024 * 1024 * 1024"

definition make_file_key :: "pystr \<Rightarrow> pystr \<Rightarrow> pystr \<Rightarrow> pystr" where
  "make_file_key timestamp unique_id file_name =
     pstr ''uploads/'' @ timestamp @ pstr ''_'' @ unique_id @ pstr ''_'' @ file_name"

text \<open>Lines 171-174: the metadata of the upload.\<close>

definition upload_metadata :: "pystr \<Rightarrow> pystr \<Rightarrow> (pystr \<times> pyval) list" where
  "upload_metadata uploaded_at encoded_filename =
     [(pstr ''x-amz-meta-uploaded-at'', PStr uploaded_at),
      (pstr ''x-amz-meta-original-filename'', PStr encoded_filename)]"

text \<open>Lines 162-193: the keyword arguments of \<^verbatim>\<open>generate_presigned_post\<close>.\<close>

definition presigned_post_kwargs ::
  "pystr \<Rightarrow> pystr \<Rightarrow> pyval \<Rightarrow> (pystr \<times> pyval) list \<Rightarrow> pyval" where
  "presigned_post_kwargs bucket_name file_key content_type metadata =
     (let conditions =
           [PDict [(pstr ''bucket'', PStr bucket_name)],
            PDict [(pstr ''key'', PStr file_key)],
            PDict [(pstr ''Content-Type'', content_type)]] @
           map (\<lambda>kv. PDict [kv]) metadata @
           [PList [PStr (pstr ''content-length-range''), PInt 1, PInt max_file_size]]
      in PDict
           [(pstr ''Bucket'', PStr bucket_name),
            (pstr ''Key'', PStr file_key),
            (pstr ''Fields'', PDict ((pstr ''Content-Type'', content_type) # metadata)),
            (pstr ''Conditions'', PList conditions),
            (pstr ''ExpiresIn'', PInt 3600)])"

text \<open>Lines 196-208: the arguments of \<^verbatim>\<open>generate_presigned_url\<close> of the client.\<close>

definition presigned_put_kwargs ::
  "pystr \<Rightarrow> pystr \<Rightarrow> pyval \<Rightarrow> pystr \<Rightarrow> pystr \<Rightarrow> pyval" where
  "presigned_put_kwargs bucket_name file_key content_type uploaded_at encoded_filename =
     PDict
       [(pstr ''ClientMethod'', PStr (pstr ''put_object'')),
        (pstr ''Params'',
         PDict
           [(pstr ''Bucket'', PStr bucket_name),
            (pstr ''Key'', PStr file_key),
            (pstr ''ContentType'', content_type),
            (pstr ''Metadata'',
             PDict
               [(pstr ''uploaded-at'', PStr uploaded_at),
                (pstr ''original-filename'', PStr encoded_filename)])]),
        (pstr ''ExpiresIn'', PInt 3600)]"

text \<open>
  Lines 153-232, the key and the body of the \<^verbatim>\<open>try\<close>. A \<^verbatim>\<open>file_name\<close> that is not a
  string makes \<^verbatim>\<open>quote\<close> raise TypeError before anything else in the \<^verbatim>\<open>try\<close> uses the
  key, so the key is built for strings only.
\<close>

definition issue_credentials ::
  "env \<Rightarrow> pystr \<Rightarrow> pyval \<Rightarrow> pyval \<Rightarrow> exn + response" where
  "issue_credentials env bucket_name content_type file_name =
     (case file_name of
        PStr fn \<Rightarrow>
          (let timestamp = strftime (now env 0);
               unique_id = take 8 (uuid_str (uuid4 env));
               file_key = make_file_key timestamp unique_id fn
           in
           bnd (quote_py fn []) (\<lambda>encoded_filename.
             let metadata = upload_metadata (isoformat (now env 1)) encoded_filename in
             bnd (generate_presigned_post env
                    (presigned_post_kwargs bucket_name file_key content_type metadata))
               (\<lambda>presigned_post.
             bnd (s3_generate_presigned_url env
                    (presigned_put_kwargs bucket_name file_key content_type
                       (isoformat (now env 2)) encoded_filename)) (\<lambda>presigned_put_url.
             bnd (subscript presigned_post (pstr ''url'')) (\<lambda>url.
             bnd (subscript presigned_post (pstr ''fields'')) (\<lambda>fields.
               Inr \<lparr>statusCode = 200, headers = std_headers,
                    body = PDict
                      [(pstr ''presigned_post'',
                        PDict [(pstr ''url'', url), (pstr ''fields'', fields)]),
                       (pstr ''presigned_put_url'', presigned_put_url),
                       (pstr ''file_key'', PStr file_key),
                       (pstr ''bucket'', PStr bucket_name),
                       (pstr ''expires_in'', PInt 3600),
                       (pstr ''max_file_size'', PInt max_file_size),
                       (pstr ''generated_at'', PStr (isoformat (now env 3))),
                       (pstr ''instructions'',
                        PDict
                          [(pstr ''post_method'', PStr (pstr
                             ''Use presigned_post.url with form data including presigned_post.fields'')),
                           (pstr ''put_method'', PStr (pstr
                             ''Use presigned_put_url with PUT request and file as body''))])]\<rparr>))))))
      | _ \<Rightarrow> Inl (Exn TypeError (pstr ''quote_from_bytes() expected bytes'')))"

definition generate_presigned_url :: "env \<Rightarrow> pyval \<Rightarrow> exn + response" where
  "generate_presigned_url env event =
     (case read_config env of
        None \<Rightarrow> Inr (error_response 500 ''Missing required environment variables'')
      | Some (bucket_name, secret_arn) \<Rightarrow>
        bnd (authenticate_request env event secret_arn) (\<lambda>auth.
          case auth of
            Rejected auth_error \<Rightarrow> Inr auth_error
          | Authenticated \<Rightarrow>
              bnd (parse_request_body env event) (\<lambda>parsed.
                case parsed of
                  Inl bad_json \<Rightarrow> Inr bad_json
                | Inr request_data \<Rightarrow>
                    bnd (dict_get request_data (pstr ''file_name'') PNone) (\<lambda>file_name.
                    bnd (dict_get request_data (pstr ''content_type'')
                           (PStr (pstr ''application/octet-stream''))) (\<lambda>content_type.
                    bnd (dict_get request_data (pstr ''file_size'') PNone) (\<lambda>file_size.
                      if \<not> truthy file_name then
                        Inr (error_response 400 ''Missing required field: file_name'')
                      else
                        (case boto3_client env (pstr ''s3'') of
                           Some e \<Rightarrow> Inl e
                         | None \<Rightarrow>
                             (case issue_credentials env bucket_name
                                     content_type file_name of
                                Inl e \<Rightarrow>
                                  Inr (error_response 500 ''Failed to generate presigned URL'')
                              | Inr ok \<Rightarrow> Inr ok))))))))"

section \<open>confirm_upload\<close>

fun dict_set :: "('k \<times> 'v) list \<Rightarrow> 'k \<Rightarrow> 'v \<Rightarrow> ('k \<times> 'v) list" where
  "dict_set [] k v = [(k, v)]"
| "dict_set ((k', v') # kvs) k v =
     (if k' = k then (k, v) # kvs else (k', v') # dict_set kvs k v)"

text \<open>
  Lines 315-321. \<open>unq\<close> is the decoder inside the inner \<^verbatim>\<open>try\<close>; when it raises, the
  entry stays as it was stored. The code runs it with \<^verbatim>\<open>unquote\<close>, which returns a
  string for every string.
\<close>

definition decode_original_filename ::
  "(pystr \<Rightarrow> exn + pystr) \<Rightarrow> (pystr \<times> pystr) list \<Rightarrow> (pystr \<times> pystr) list" where
  "decode_original_filename unq metadata =
     (case map_of metadata (pstr ''original-filename'') of
        None \<Rightarrow> metadata
      | Some stored \<Rightarrow>
          (case unq stored of
             Inl e \<Rightarrow> metadata
           | Inr decoded \<Rightarrow> dict_set metadata (pstr ''original-filename'') decoded))"

definition required :: "pystr \<Rightarrow> 'a option \<Rightarrow> exn + 'a" where
  "required k x = (case x of None \<Rightarrow> Inl (Exn KeyError k) | Some v \<Rightarrow> Inr v)"

text \<open>
  Lines 309-340, the body of the \<^verbatim>\<open>try\<close>. The client checks its parameters before it
  sends anything: a \<^verbatim>\<open>Key\<close> that is not a string raises there.
\<close>

definition describe_object ::
  "(pystr \<Rightarrow> exn + pystr) \<Rightarrow> env \<Rightarrow> pystr \<Rightarrow> pyval \<Rightarrow> exn + response" where
  "describe_object unq env bucket_name file_key =
     (case file_key of
        PStr key \<Rightarrow>
          bnd (head_object env bucket_name key) (\<lambda>response.
            let s3_url = pstr ''https://'' @ bucket_name @ pstr ''.s3.amazonaws.com/'' @ key;
                metadata =
                  decode_original_filename unq
                    (case Metadata response of None \<Rightarrow> [] | Some m \<Rightarrow> m)
            in
            bnd (required (pstr ''ContentLength'') (ContentLength response)) (\<lambda>file_size.
            bnd (required (pstr ''ContentType'') (ContentType response)) (\<lambda>content_type.
            bnd (required (pstr ''LastModified'') (LastModified response)) (\<lambda>last_modified.
              Inr \<lparr>statusCode = 200, headers = std_headers,
                   body = PDict
                     [(pstr ''message'', PStr (pstr ''File upload confirmed'')),
                      (pstr ''file_key'', file_key),
                      (pstr ''s3_url'', PStr s3_url),
                      (pstr ''bucket'', PStr bucket_name),
                      (pstr ''file_size'', PInt file_size),
                      (pstr ''content_type'', PStr content_type),
                      (pstr ''last_modified'', PStr last_modified),
                      (pstr ''metadata'', PDict (map (\<lambda>(k, v). (k, PStr v)) metadata)),
                      (pstr ''confirmed_at'', PStr (isoformat (now env 0)))]\<rparr>))))
      | _ \<Rightarrow> Inl (Exn OtherException (pstr ''ParamValidationError'')))"

definition confirm_upload_with ::
  "(pystr \<Rightarrow> exn + pystr) \<Rightarrow> env \<Rightarrow> pyval \<Rightarrow> exn + response" where
  "confirm_upload_with unq env event =
     (case read_config env of
        None \<Rightarrow> Inr (error_response 500 ''Missing required environment variables'')
      | Some (bucket_name, secret_arn) \<Rightarrow>
        bnd (authenticate_request env event secret_arn) (\<lambda>auth.
          case auth of
            Rejected auth_error \<Rightarrow> Inr auth_error
          | Authenticated \<Rightarrow>
              bnd (parse_request_body env event) (\<lambda>parsed.
                case parsed of
                  Inl bad_json \<Rightarrow> Inr bad_json
                | Inr request_data \<Rightarrow>
                    bnd (dict_get request_data (pstr ''file_key'') PNone) (\<lambda>file_key.
                      if \<not> truthy file_key then
                        Inr (error_response 400 ''Missing required field: file_key'')
                      else
                        (case boto3_client env (pstr ''s3'') of
                           Some e \<Rightarrow> Inl e
                         | None \<Rightarrow>
                             (case describe_object unq env bucket_name file_key of
                                Inl (Exn k m) \<Rightarrow>
                                  if k = NoSuchKey then
                                    Inr (error_response 404 ''File not found in S3'')
                                  else Inr (error_response 500 ''Failed to confirm upload'')
                              | Inr ok \<Rightarrow> Inr ok))))))"

definition confirm_upload :: "env \<Rightarrow> pyval \<Rightarrow> exn + response" where
  "confirm_upload = confirm_upload_with (\<lambda>s. Inr (unquote_py s))"

section \<open>handler\<close>

definition not_found_response :: response where
  "not_found_response =
     \<lparr>statusCode = 404, headers = std_headers,
      body = PDict
        [(pstr ''error'', PStr (pstr ''Endpoint not found'')),
         (pstr ''available_endpoints'',
          PList
            [PStr (pstr ''POST /presigned-url - Generate presigned URL for file upload''),
             PStr (pstr ''POST /confirm-upload - Confirm file upload completion'')])]\<rparr>"

text \<open>Lines 372-395, the body of the \<^verbatim>\<open>try\<close>.\<close>

definition route :: "env \<Rightarrow> pyval \<Rightarrow> exn + response" where
  "route env event =
     bnd (dict_get event (pstr ''resource'') (PStr [])) (\<lambda>resource_path.
     bnd (dict_get event (pstr ''httpMethod'') (PStr [])) (\<lambda>http_method.
       if resource_path = PStr (pstr ''/presigned-url'') \<and> http_method = PStr (pstr ''POST'')
       then generate_presigned_url env event
       else if resource_path = PStr (pstr ''/confirm-upload'') \<and>
               http_method = PStr (pstr ''POST'')
       then confirm_upload env event
       else Inr not_found_response))"

definition handler :: "env \<Rightarrow> pyval \<Rightarrow> response" where
  "handler env event =
     (case route env event of
        Inl e \<Rightarrow> error_response 500 ''Internal server error''
      | Inr r \<Rightarrow> r)"

section \<open>The object store behind head_object\<close>

text \<open>
  What the S3 client answers to \<^verbatim>\<open>head_object\<close> over a store of objects. The answer to a
  HEAD request has no body, so for a key that is not in the bucket the client has only the
  HTTP status to report: it raises the generic \<^verbatim>\<open>botocore.exceptions.ClientError\<close> with
  the error code \<^verbatim>\<open>404\<close>, which is not an instance of \<^verbatim>\<open>exceptions.NoSuchKey\<close>.
\<close>

definition s3_head_object ::
  "(pystr \<times> pystr \<Rightarrow> head_response option) \<Rightarrow> pystr \<Rightarrow> pystr \<Rightarrow> exn + head_response" where
  "s3_head_object objects bucket key =
     (case objects (bucket, key) of
        None \<Rightarrow>
          Inl (Exn ClientError (pstr
            ''An error occurred (404) when calling the HeadObject operation: Not Found''))
      | Some obj \<Rightarrow> Inr obj)"

section \<open>What the specification says, in its own words\<close>

text \<open>
  Percent-encoding of a byte string with no character treated as safe: the unreserved
  characters (letters, digits, \<^verbatim>\<open>-\<close>, \<^verbatim>\<open>.\<close>, \<^verbatim>\<open>_\<close>, \<^verbatim>\<open>~\<close>) stand for themselves, every other
  byte is written \<^verbatim>\<open>%XX\<close>.
\<close>

definition percent_encode :: "nat list \<Rightarrow> pystr" where
  "percent_encode bs =
     concat (map (\<lambda>b. if always_safe b then [b]
                        else [37, hex_upper (b div 16), hex_upper (b mod 16)]) bs)"

text \<open>The shape \<^verbatim>\<open>YYYYMMDD_HHMMSS\<close>: fourteen digits, an underscore after the eighth.\<close>

definition is_digit :: "nat \<Rightarrow> bool" where
  "is_digit c = (48 \<le> c \<and> c \<le> 57)"

definition is_hex_digit :: "nat \<Rightarrow> bool" where
  "is_hex_digit c = (is_digit c \<or> (97 \<le> c \<and> c \<le> 102))"

definition timestamp_shaped :: "pystr \<Rightarrow> bool" where
  "timestamp_shaped ts =
     (length ts = 15 \<and> list_all is_digit (take 8 ts) \<and> ts ! 8 = 95 \<and>
      list_all is_digit (drop 9 ts))"

definition random_id_shaped :: "pystr \<Rightarrow> bool" where
  "random_id_shaped u = (length u = 8 \<and> list_all is_hex_digit u)"

text \<open>A reading of the clock with a year of four digits and fields in their ranges.\<close>

definition clock_reading :: "datetime \<Rightarrow> bool" where
  "clock_reading t =
     (1000 \<le> year t \<and> year t \<le> 9999 \<and> 1 \<le> month t \<and> month t \<le> 12 \<and>
      1 \<le> day t \<and> day t \<le> 31 \<and> hour t < 24 \<and> minute t < 60 \<and> second t < 60 \<and>
      microsecond t < 1000000)"

text \<open>An entry of the JSON object in the body of a response.\<close>

definition response_field :: "response \<Rightarrow> string \<Rightarrow> pyval option" where
  "response_field r k = (case body r of PDict kvs \<Rightarrow> map_of kvs (pstr k) | _ \<Rightarrow> None)"

section \<open>A sample deployment\<close>

text \<open>
  One concrete world to run the functions in: a bucket \<^verbatim>\<open>media\<close> with one object, the
  secret \<^verbatim>\<open>s3cret\<close>, and a JSON decoder that knows the documents used below and rejects
  every other text.
\<close>

definition dq :: "pystr \<Rightarrow> pystr" where
  "dq s = [34] @ s @ [34]"

definition json_object1 :: "string \<Rightarrow> pystr \<Rightarrow> pystr" where
  "json_object1 k v = pstr ''{'' @ dq (pstr k) @ pstr '': '' @ v @ pstr ''}''"

definition sample_file_name :: pystr where
  "sample_file_name = [114, 233] @ pstr ''sum'' @ [233] @ pstr '' 1.pdf''"

definition sample_key :: pystr where
  "sample_key = make_file_key (pstr ''20250309_070501'') (pstr ''1234abcd'') sample_file_name"

definition sample_secret_document :: pystr where
  "sample_secret_document = json_object1 ''shared_secret'' (dq (pstr ''s3cret''))"

definition body_named :: pystr where
  "body_named = json_object1 ''file_name'' (dq sample_file_name)"

definition body_named_sized :: pystr where
  "body_named_sized =
     pstr ''{'' @ dq (pstr ''file_name'') @ pstr '': '' @ dq sample_file_name @ pstr '', '' @
     dq (pstr ''file_size'') @ pstr '': 99999999999999}''"

definition sample_documents :: "(pystr \<times> pyval) list" where
  "sample_documents =
     [(sample_secret_document, PDict [(pstr ''shared_secret'', PStr (pstr ''s3cret''))]),
      (pstr ''{}'', PDict []),
      (body_named, PDict [(pstr ''file_name'', PStr sample_file_name)]),
      (body_named_sized,
       PDict [(pstr ''file_name'', PStr sample_file_name),
              (pstr ''file_size'', PInt 99999999999999)]),
      (json_object1 ''file_name'' (dq []), PDict [(pstr ''file_name'', PStr [])]),
      (json_object1 ''file_name'' (pstr ''null''), PDict [(pstr ''file_name'', PNone)]),
      (json_object1 ''file_key'' (dq sample_key), PDict [(pstr ''file_key'', PStr sample_key)]),
      (json_object1 ''file_key'' (dq (pstr ''uploads/none'')),
       PDict [(pstr ''file_key'', PStr (pstr ''uploads/none''))]),
      (json_object1 ''file_key'' (dq []), PDict [(pstr ''file_key'', PStr [])]),
      (json_object1 ''file_key'' (pstr ''null''), PDict [(pstr ''file_key'', PNone)])]"

definition sample_loads :: "pyval \<Rightarrow> exn + pyval" where
  "sample_loads v =
     (case v of
        PStr s \<Rightarrow>
          (case map_of sample_documents s of
             Some d \<Rightarrow> Inr d
           | None \<Rightarrow> Inl (Exn JSONDecodeError (pstr ''Expecting value'')))
      | _ \<Rightarrow> Inl (Exn TypeError (pstr ''the JSON object must be str, bytes or bytearray'')))"

definition sample_metadata :: "(pystr \<times> pystr) list" where
  "sample_metadata =
     [(pstr ''uploaded-at'', pstr ''2025-03-09T07:05:01.000001''),
      (pstr ''original-filename'', pstr ''r%C3%A9sum%C3%A9%201.pdf'')]"

definition sample_object :: head_response where
  "sample_object =
     \<lparr>Metadata = Some sample_metadata,
      ContentLength = Some 1024,
      ContentType = Some (pstr ''application/pdf''),
      LastModified = Some (pstr ''2025-03-09T07:06:00+00:00'')\<rparr>"

definition sample_objects :: "pystr \<times> pystr \<Rightarrow> head_response option" where
  "sample_objects bk = (if bk = (pstr ''media'', sample_key) then Some sample_object else None)"

definition sample_arn :: pystr where
  "sample_arn = pstr ''arn:aws:secretsmanager:eu-west-1:1:secret:upload''"

definition sample_env :: env where
  "sample_env =
     \<lparr>environ = (\<lambda>k. if k = pstr ''BUCKET_NAME'' then Some (pstr ''media'')
                       else if k = pstr ''SECRET_ARN'' then Some sample_arn else None),
      now = (\<lambda>n. \<lparr>year = 2025, month = 3, day = 9, hour = 7, minute = 5, second = 1,
                   microsecond = n\<rparr>),
      uuid4 = 0x1234abcd5e6f4a7b8c9d0e1f2a3b4c5d,
      boto3_client = (\<lambda>name. None),
      get_secret_value = (\<lambda>arn.
        if arn = sample_arn then Inr (PDict [(pstr ''SecretString'', PStr sample_secret_document)])
        else Inl (Exn ClientError (pstr ''ResourceNotFoundException''))),
      json_loads = sample_loads,
      b64decode_utf8 = (\<lambda>v. if v = PStr [] then Inr []
                             else Inl (Exn ValueError (pstr ''Incorrect padding''))),
      generate_presigned_post = (\<lambda>kwargs.
        bnd (subscript kwargs (pstr ''Fields'')) (\<lambda>fields.
          Inr (PDict [(pstr ''url'', PStr (pstr ''https://media.s3.amazonaws.com/'')),
                      (pstr ''fields'', fields)]))),
      s3_generate_presigned_url = (\<lambda>kwargs.
        Inr (PStr (pstr ''https://media.s3.amazonaws.com/upload?X-Amz-Signature=0''))),
      head_object = s3_head_object sample_objects\<rparr>"

text \<open>A POST to \<open>path\<close> with the header \<^verbatim>\<open>Authorization: auth\<close> and the given body.\<close>

definition request :: "string \<Rightarrow> string \<Rightarrow> pyval \<Rightarrow> pyval" where
  "request path auth body_text =
     PDict
       [(pstr ''resource'', PStr (pstr path)),
        (pstr ''httpMethod'', PStr (pstr ''POST'')),
        (pstr ''headers'', PDict [(pstr ''Authorization'', PStr (pstr auth))]),
        (pstr ''body'', body_text),
        (pstr ''isBase64Encoded'', PBool False)]"

section \<open>Properties\<close>

subsection \<open>The standard headers\<close>

lemma headers_error_response [simp]: "headers (error_response c m) = std_headers"
  by (simp add: error_response_def)

lemma statusCode_error_response [simp]: "statusCode (error_response c m) = c"
  by (simp add: error_response_def)

lemma bnd_Inr_iff: "bnd m f = Inr y \<longleftrightarrow> (\<exists>x. m = Inr x \<and> f x = Inr y)"
  by (cases m) (simp_all add: bnd_def)

lemma bnd_InrE:
  assumes "bnd m f = Inr r"
  obtains x where "m = Inr x" and "f x = Inr r"
  using assms by (cases m) (simp_all add: bnd_def)

lemma bnd_Inl [simp]: "bnd (Inl e) f = Inl e"
  by (simp add: bnd_def)

lemma bnd_Inr [simp]: "bnd (Inr x) f = f x"
  by (simp add: bnd_def)

lemma authenticate_request_headers:
  "authenticate_request env event arn = Inr (Rejected r) \<Longrightarrow> headers r = std_headers"
  unfolding authenticate_request_def
  by (auto elim!: bnd_InrE simp: Let_def split: if_splits pyval.splits option.splits sum.splits)

lemma parse_request_body_headers:
  "parse_request_body env event = Inr (Inl r) \<Longrightarrow> headers r = std_headers"
  unfolding parse_request_body_def
  by (auto elim!: bnd_InrE split: if_splits sum.splits exn.splits)

lemma issue_credentials_headers:
  "issue_credentials env b ct fn = Inr r \<Longrightarrow> headers r = std_headers"
  unfolding issue_credentials_def
  by (auto elim!: bnd_InrE simp: Let_def split: pyval.splits)

lemma generate_presigned_url_headers:
  "generate_presigned_url env event = Inr r \<Longrightarrow> headers r = std_headers"
  unfolding generate_presigned_url_def
  by (auto elim!: bnd_InrE split: option.splits auth_result.splits sum.splits if_splits)
    (erule authenticate_request_headers parse_request_body_headers issue_credentials_headers)+

lemma describe_object_headers:
  "describe_object unq env b k = Inr r \<Longrightarrow> headers r = std_headers"
  unfolding describe_object_def
  by (auto elim!: bnd_InrE simp: Let_def split: pyval.splits)

lemma confirm_upload_with_headers:
  "confirm_upload_with unq env event = Inr r \<Longrightarrow> headers r = std_headers"
  unfolding confirm_upload_with_def
  by (auto elim!: bnd_InrE split: option.splits auth_result.splits sum.splits if_splits exn.splits)
    (erule authenticate_request_headers parse_request_body_headers describe_object_headers)+

lemma route_headers: "route env event = Inr r \<Longrightarrow> headers r = std_headers"
  unfolding route_def confirm_upload_def
  by (auto elim!: bnd_InrE simp: not_found_response_def split: if_splits)
    (erule generate_presigned_url_headers confirm_upload_with_headers)+

lemma handler_headers: "headers (handler env event) = std_headers"
  unfolding handler_def by (simp split: sum.splits) (blast intro: route_headers)

lemma std_headers_lookup:
  "map_of std_headers (pstr ''Content-Type'') = Some (pstr ''application/json'')"
  "map_of std_headers (pstr ''Access-Control-Allow-Origin'') = Some (pstr ''*'')"
  by (simp_all add: std_headers_def pstr_def)

text \<open>
  C6. Every response of the handler, whatever the environment and the event and whichever
  component built it, carries \<^verbatim>\<open>Content-Type: application/json\<close> and
  \<^verbatim>\<open>Access-Control-Allow-Origin: *\<close>.
\<close>

theorem handler_standard_headers:
  "map_of (headers (handler env event)) (pstr ''Content-Type'') = Some (pstr ''application/json'') \<and>
   map_of (headers (handler env event)) (pstr ''Access-Control-Allow-Origin'') = Some (pstr ''*'')"
  by (simp add: handler_headers std_headers_lookup)

subsection \<open>Authentication\<close>

lemma auth_header_of_request:
  "auth \<noteq> [] \<Longrightarrow> auth_header_of (request path auth b) = Inr (PStr (pstr auth))"
  by (simp add: auth_header_of_def request_def dict_get_def pstr_def)

lemma sample_env_fields:
  "boto3_client sample_env name = None"
  "json_loads sample_env = sample_loads"
  "head_object sample_env = s3_head_object sample_objects"
  "now sample_env n = \<lparr>year = 2025, month = 3, day = 9, hour = 7, minute = 5, second = 1,
     microsecond = n\<rparr>"
  "uuid4 sample_env = 0x1234abcd5e6f4a7b8c9d0e1f2a3b4c5d"
  by (simp_all add: sample_env_def)

lemma read_config_sample: "read_config sample_env = Some (pstr ''media'', sample_arn)"
  by (simp add: read_config_def sample_env_def pstr_def sample_arn_def)

lemma fetch_shared_secret_sample:
  "fetch_shared_secret sample_env sample_arn = Inr (PStr (pstr ''s3cret''))"
  by (simp add: fetch_shared_secret_def sample_env_def subscript_def dict_get_def
      sample_loads_def sample_documents_def pstr_def)

lemma authenticate_sample:
  "authenticate_request sample_env (request path ''Bearer s3cret'' b) sample_arn = Inr Authenticated"
  by (simp add: authenticate_request_def auth_header_of_request fetch_shared_secret_sample
      sample_env_fields)
    (simp add: pstr_def startswith_def)


lemma startswith_nonempty: "startswith s (pstr ''Bearer '') \<Longrightarrow> s \<noteq> []"
  by (auto simp: startswith_def pstr_def)

lemma authenticate_request_bearer:
  assumes "auth_header_of event = Inr (PStr s)"
    and "startswith s (pstr ''Bearer '')"
    and "boto3_client env (pstr ''secretsmanager'') = None"
  shows "authenticate_request env event arn =
     (case fetch_shared_secret env arn of
        Inl e \<Rightarrow> Inr (Rejected (error_response 500 ''Failed to retrieve authentication secret''))
      | Inr expected_secret \<Rightarrow>
          if \<not> truthy expected_secret then
            Inr (Rejected (error_response 500 ''Shared secret not found in Secrets Manager''))
          else if PStr (drop 7 s) \<noteq> expected_secret then
            Inr (Rejected (error_response 401 ''Invalid authentication token''))
          else Inr Authenticated)"
  using assms startswith_nonempty [OF assms(2)]
  by (simp add: authenticate_request_def)

lemma auth_header_two_spellings:
  assumes "dict_get event (pstr ''headers'') (PDict []) = Inr (PDict hs)"
  shows "truthy v \<Longrightarrow> map_of hs (pstr ''Authorization'') = Some v \<Longrightarrow>
      auth_header_of event = Inr v"
    and "map_of hs (pstr ''Authorization'') = None \<Longrightarrow>
      map_of hs (pstr ''authorization'') = Some v \<Longrightarrow> auth_header_of event = Inr v"
  using assms by (simp_all add: auth_header_of_def dict_get_def)

text \<open>
  C1. The header is looked up under the two spellings \<^verbatim>\<open>Authorization\<close> and
  \<^verbatim>\<open>authorization\<close> only: a request that carries \<^verbatim>\<open>AUTHORIZATION: Bearer s3cret\<close> is
  answered 401 "Missing Authorization header", in every environment.
\<close>

theorem uppercase_authorization_header_not_found:
  "authenticate_request env
     (PDict [(pstr ''headers'', PDict [(pstr ''AUTHORIZATION'', PStr (pstr ''Bearer s3cret''))])])
     arn
   = Inr (Rejected (error_response 401 ''Missing Authorization header''))"
  by (simp add: authenticate_request_def auth_header_of_def dict_get_def pstr_def)

text \<open>
  C2. A request whose Authorization header starts with "Bearer " and whose token differs
  from the secret the store holds (the fetch returned a secret that is not empty) is
  rejected with 401 "Invalid authentication token", whatever the token is.
\<close>

theorem wrong_token_rejected:
  assumes "auth_header_of event = Inr (PStr s)"
    and "startswith s (pstr ''Bearer '')"
    and "boto3_client env (pstr ''secretsmanager'') = None"
    and "fetch_shared_secret env arn = Inr secret"
    and "truthy secret"
    and "PStr (drop 7 s) \<noteq> secret"
  shows "authenticate_request env event arn =
    Inr (Rejected (error_response 401 ''Invalid authentication token''))"
  using assms(4-6) by (simp add: authenticate_request_bearer [OF assms(1-3)])

theorem wrong_token_rejected_witness:
  "authenticate_request sample_env (request ''/presigned-url'' ''Bearer guess'' PNone) sample_arn =
    Inr (Rejected (error_response 401 ''Invalid authentication token''))"
proof -
  have h1: "auth_header_of (request ''/presigned-url'' ''Bearer guess'' PNone)
      = Inr (PStr (pstr ''Bearer guess''))"
    by (simp add: auth_header_of_request)
  have h2: "startswith (pstr ''Bearer guess'') (pstr ''Bearer '')"
    by (simp add: startswith_def pstr_def)
  have h3: "boto3_client sample_env (pstr ''secretsmanager'') = None"
    by (simp add: sample_env_fields)
  have h5: "truthy (PStr (pstr ''s3cret''))"
    by (simp add: pstr_def)
  have h6: "PStr (drop 7 (pstr ''Bearer guess'')) \<noteq> PStr (pstr ''s3cret'')"
    by (simp add: pstr_def)
  show ?thesis
    by (rule wrong_token_rejected [OF h1 h2 h3 fetch_shared_secret_sample h5 h6])
qed

text \<open>
  C7. When the call of the secret store raises, whatever the exception and its text,
  authentication fails with the fixed response 500 "Failed to retrieve authentication
  secret": the response is the same for every exception.
\<close>

theorem secret_fetch_failure_is_fixed_500:
  assumes "auth_header_of event = Inr (PStr s)"
    and "startswith s (pstr ''Bearer '')"
    and "boto3_client env (pstr ''secretsmanager'') = None"
    and "get_secret_value env arn = Inl e"
  shows "authenticate_request env event arn =
    Inr (Rejected (error_response 500 ''Failed to retrieve authentication secret''))"
  using assms(4)
  by (simp add: authenticate_request_bearer [OF assms(1-3)] fetch_shared_secret_def)

theorem secret_fetch_failure_is_fixed_500_witness:
  "authenticate_request
     (sample_env\<lparr>get_secret_value :=
        \<lambda>arn. Inl (Exn ClientError (pstr ''AccessDeniedException: not authorized for key 17''))\<rparr>)
     (request ''/confirm-upload'' ''Bearer s3cret'' PNone) sample_arn =
    Inr (Rejected (error_response 500 ''Failed to retrieve authentication secret''))"
proof -
  have h1: "auth_header_of (request ''/confirm-upload'' ''Bearer s3cret'' PNone)
      = Inr (PStr (pstr ''Bearer s3cret''))"
    by (simp add: auth_header_of_request)
  have h2: "startswith (pstr ''Bearer s3cret'') (pstr ''Bearer '')"
    by (simp add: startswith_def pstr_def)
  show ?thesis
    by (rule secret_fetch_failure_is_fixed_500 [OF h1 h2]) (simp_all add: sample_env_fields)
qed


subsection \<open>The request body\<close>

lemma generate_presigned_url_authenticated:
  assumes "read_config env = Some (bucket_name, secret_arn)"
    and "authenticate_request env event secret_arn = Inr Authenticated"
  shows "generate_presigned_url env event =
     bnd (parse_request_body env event) (\<lambda>parsed.
       case parsed of
         Inl bad_json \<Rightarrow> Inr bad_json
       | Inr request_data \<Rightarrow>
           bnd (dict_get request_data (pstr ''file_name'') PNone) (\<lambda>file_name.
           bnd (dict_get request_data (pstr ''content_type'')
                  (PStr (pstr ''application/octet-stream''))) (\<lambda>content_type.
           bnd (dict_get request_data (pstr ''file_size'') PNone) (\<lambda>file_size.
             if \<not> truthy file_name then
               Inr (error_response 400 ''Missing required field: file_name'')
             else
               (case boto3_client env (pstr ''s3'') of
                  Some e \<Rightarrow> Inl e
                | None \<Rightarrow>
                    (case issue_credentials env bucket_name content_type file_name of
                       Inl e \<Rightarrow> Inr (error_response 500 ''Failed to generate presigned URL'')
                     | Inr ok \<Rightarrow> Inr ok))))))"
  using assms by (simp add: generate_presigned_url_def)

lemma confirm_upload_authenticated:
  assumes "read_config env = Some (bucket_name, secret_arn)"
    and "authenticate_request env event secret_arn = Inr Authenticated"
  shows "confirm_upload_with unq env event =
     bnd (parse_request_body env event) (\<lambda>parsed.
       case parsed of
         Inl bad_json \<Rightarrow> Inr bad_json
       | Inr request_data \<Rightarrow>
           bnd (dict_get request_data (pstr ''file_key'') PNone) (\<lambda>file_key.
             if \<not> truthy file_key then
               Inr (error_response 400 ''Missing required field: file_key'')
             else
               (case boto3_client env (pstr ''s3'') of
                  Some e \<Rightarrow> Inl e
                | None \<Rightarrow>
                    (case describe_object unq env bucket_name file_key of
                       Inl (Exn k m) \<Rightarrow>
                         if k = NoSuchKey then
                           Inr (error_response 404 ''File not found in S3'')
                         else Inr (error_response 500 ''Failed to confirm upload'')
                     | Inr ok \<Rightarrow> Inr ok))))"
  using assms by (simp add: confirm_upload_with_def)

lemma dict_get_empty [simp]: "dict_get (PDict []) k dflt = Inr dflt"
  by (simp add: dict_get_def)

lemma dict_get_PDict: "dict_get (PDict kvs) k dflt =
    Inr (case map_of kvs k of Some v \<Rightarrow> v | None \<Rightarrow> dflt)"
  by (simp add: dict_get_def)


lemma request_body_request: "request_body env (request path auth b) = Inr b"
  by (simp add: request_body_def request_def dict_get_def pstr_def)


text \<open>
  C10. For an authenticated request whose body parses to an object in which the required
  field is absent, null or the empty string, both operations answer with the same 400
  "Missing required field" response.
\<close>

theorem empty_required_field_counts_as_missing:
  assumes "read_config env = Some (bucket_name, secret_arn)"
    and "authenticate_request env event secret_arn = Inr Authenticated"
    and "parse_request_body env event = Inr (Inr (PDict d))"
  shows "(map_of d (pstr ''file_name'') \<in> {None, Some PNone, Some (PStr [])} \<longrightarrow>
            generate_presigned_url env event =
              Inr (error_response 400 ''Missing required field: file_name'')) \<and>
         (map_of d (pstr ''file_key'') \<in> {None, Some PNone, Some (PStr [])} \<longrightarrow>
            confirm_upload env event =
              Inr (error_response 400 ''Missing required field: file_key''))"
  using assms(3)
  by (auto simp: generate_presigned_url_authenticated [OF assms(1,2)] confirm_upload_def
      confirm_upload_authenticated [OF assms(1,2)] dict_get_PDict)

lemmas sample_defs =
  sample_loads_def sample_documents_def pstr_def json_object1_def dq_def
  sample_secret_document_def body_named_def body_named_sized_def sample_file_name_def
  sample_key_def make_file_key_def

lemma parse_request_body_request:
  "parse_request_body sample_env (request path auth (PStr s)) =
     (if s = [] then Inr (Inr (PDict []))
      else case sample_loads (PStr s) of
             Inl (Exn k m) \<Rightarrow>
               if k = JSONDecodeError then
                 Inr (Inl (error_response 400 ''Invalid JSON in request body''))
               else Inl (Exn k m)
           | Inr request_data \<Rightarrow> Inr (Inr request_data))"
  by (simp add: parse_request_body_def request_body_request sample_env_fields)

lemma sample_loads_documents:
  "sample_loads (PStr (pstr ''{}'')) = Inr (PDict [])"
  "sample_loads (PStr (json_object1 ''file_name'' (dq []))) =
     Inr (PDict [(pstr ''file_name'', PStr [])])"
  "sample_loads (PStr (json_object1 ''file_name'' (pstr ''null''))) =
     Inr (PDict [(pstr ''file_name'', PNone)])"
  "sample_loads (PStr (json_object1 ''file_key'' (dq []))) =
     Inr (PDict [(pstr ''file_key'', PStr [])])"
  "sample_loads (PStr (json_object1 ''file_key'' (pstr ''null''))) =
     Inr (PDict [(pstr ''file_key'', PNone)])"
  by (simp_all add: sample_defs)

lemma json_texts_nonempty:
  "pstr ''{}'' \<noteq> []" "json_object1 k v \<noteq> []"
  by (simp_all add: pstr_def json_object1_def)

theorem empty_required_field_counts_as_missing_witness:
  "generate_presigned_url sample_env
      (request ''/presigned-url'' ''Bearer s3cret'' (PStr (pstr ''{}''))) =
     Inr (error_response 400 ''Missing required field: file_name'') \<and>
   generate_presigned_url sample_env
      (request ''/presigned-url'' ''Bearer s3cret'' (PStr (json_object1 ''file_name'' (dq [])))) =
     Inr (error_response 400 ''Missing required field: file_name'') \<and>
   generate_presigned_url sample_env
      (request ''/presigned-url'' ''Bearer s3cret''
        (PStr (json_object1 ''file_name'' (pstr ''null'')))) =
     Inr (error_response 400 ''Missing required field: file_name'') \<and>
   confirm_upload sample_env
      (request ''/confirm-upload'' ''Bearer s3cret'' (PStr (pstr ''{}''))) =
     Inr (error_response 400 ''Missing required field: file_key'') \<and>
   confirm_upload sample_env
      (request ''/confirm-upload'' ''Bearer s3cret'' (PStr (json_object1 ''file_key'' (dq [])))) =
     Inr (error_response 400 ''Missing required field: file_key'') \<and>
   confirm_upload sample_env
      (request ''/confirm-upload'' ''Bearer s3cret''
        (PStr (json_object1 ''file_key'' (pstr ''null'')))) =
     Inr (error_response 400 ''Missing required field: file_key'')"
proof -
  note parsed = parse_request_body_request sample_loads_documents json_texts_nonempty
  have p1: "parse_request_body sample_env
      (request path ''Bearer s3cret'' (PStr (pstr ''{}''))) = Inr (Inr (PDict []))" for path
    by (simp add: parsed)
  have p2: "parse_request_body sample_env
      (request path ''Bearer s3cret'' (PStr (json_object1 ''file_name'' (dq [])))) =
      Inr (Inr (PDict [(pstr ''file_name'', PStr [])]))" for path
    by (simp add: parsed)
  have p3: "parse_request_body sample_env
      (request path ''Bearer s3cret'' (PStr (json_object1 ''file_name'' (pstr ''null'')))) =
      Inr (Inr (PDict [(pstr ''file_name'', PNone)]))" for path
    by (simp add: parsed)
  have p4: "parse_request_body sample_env
      (request path ''Bearer s3cret'' (PStr (json_object1 ''file_key'' (dq [])))) =
      Inr (Inr (PDict [(pstr ''file_key'', PStr [])]))" for path
    by (simp add: parsed)
  have p5: "parse_request_body sample_env
      (request path ''Bearer s3cret'' (PStr (json_object1 ''file_key'' (pstr ''null'')))) =
      Inr (Inr (PDict [(pstr ''file_key'', PNone)]))" for path
    by (simp add: parsed)
  note T = empty_required_field_counts_as_missing [OF read_config_sample authenticate_sample]
  show ?thesis
    using T [OF p1] T [OF p2] T [OF p3] T [OF p4] T [OF p5]
    by simp
qed

subsection \<open>The field file_size\<close>









lemma sample_loads_named:
  "sample_loads (PStr body_named) = Inr (PDict [(pstr ''file_name'', PStr sample_file_name)])"
  "sample_loads (PStr body_named_sized) =
     Inr (PDict [(pstr ''file_name'', PStr sample_file_name),
                 (pstr ''file_size'', PInt 99999999999999)])"
  "body_named \<noteq> []" "body_named_sized \<noteq> []"
  by (simp_all add: sample_defs)


subsection \<open>confirm_upload on a key that is not in the bucket\<close>

lemma describe_object_head_raises:
  "head_object env bucket_name key = Inl e \<Longrightarrow>
   describe_object unq env bucket_name (PStr key) = Inl e"
  by (simp add: describe_object_def)

lemma confirm_upload_no_such_key:
  assumes "read_config env = Some (bucket_name, secret_arn)"
    and "authenticate_request env event secret_arn = Inr Authenticated"
    and "parse_request_body env event = Inr (Inr request_data)"
    and "dict_get request_data (pstr ''file_key'') PNone = Inr (PStr key)"
    and "key \<noteq> []"
    and "boto3_client env (pstr ''s3'') = None"
    and "head_object env bucket_name key = Inl (Exn NoSuchKey m)"
  shows "confirm_upload env event = Inr (error_response 404 ''File not found in S3'')"
  using assms(3-7)
  by (simp add: confirm_upload_def confirm_upload_authenticated [OF assms(1,2)]
      describe_object_head_raises)

lemma confirm_upload_absent_object:
  assumes "read_config env = Some (bucket_name, secret_arn)"
    and "authenticate_request env event secret_arn = Inr Authenticated"
    and "parse_request_body env event = Inr (Inr request_data)"
    and "dict_get request_data (pstr ''file_key'') PNone = Inr (PStr key)"
    and "key \<noteq> []"
    and "boto3_client env (pstr ''s3'') = None"
    and "head_object env = s3_head_object objects"
    and "objects (bucket_name, key) = None"
  shows "confirm_upload env event = Inr (error_response 500 ''Failed to confirm upload'')"
  using assms(3-8)
  by (simp add: confirm_upload_def confirm_upload_authenticated [OF assms(1,2)]
      describe_object_head_raises s3_head_object_def)

lemma sample_loads_missing_key:
  "sample_loads (PStr (json_object1 ''file_key'' (dq (pstr ''uploads/none'')))) =
     Inr (PDict [(pstr ''file_key'', PStr (pstr ''uploads/none''))])"
  by (simp add: sample_defs)

lemma sample_objects_none: "sample_objects (pstr ''media'', pstr ''uploads/none'') = None"
  by (simp add: sample_objects_def sample_defs)

lemma route_confirm_upload:
  "route env (request ''/confirm-upload'' auth b) =
     confirm_upload env (request ''/confirm-upload'' auth b)"
  by (simp add: route_def request_def dict_get_def pstr_def)

lemma route_presigned_url:
  "route env (request ''/presigned-url'' auth b) =
     generate_presigned_url env (request ''/presigned-url'' auth b)"
  by (simp add: route_def request_def dict_get_def pstr_def)

text \<open>
  C3. In the sample deployment the bucket holds no object \<^verbatim>\<open>uploads/none\<close>. An
  authenticated confirm-upload request for that key is answered 500 "Failed to confirm
  upload": the client reports the missing key as a ClientError, which the
  \<^verbatim>\<open>except NoSuchKey\<close> branch does not catch.
\<close>

theorem confirm_upload_missing_object_is_500:
  "handler sample_env
     (request ''/confirm-upload'' ''Bearer s3cret''
        (PStr (json_object1 ''file_key'' (dq (pstr ''uploads/none''))))) =
   error_response 500 ''Failed to confirm upload''"
proof -
  let ?ev = "request ''/confirm-upload'' ''Bearer s3cret''
        (PStr (json_object1 ''file_key'' (dq (pstr ''uploads/none''))))"
  have p: "parse_request_body sample_env ?ev =
      Inr (Inr (PDict [(pstr ''file_key'', PStr (pstr ''uploads/none''))]))"
    by (simp add: parse_request_body_request sample_loads_missing_key json_texts_nonempty)
  have k: "dict_get (PDict [(pstr ''file_key'', PStr (pstr ''uploads/none''))])
      (pstr ''file_key'') PNone = Inr (PStr (pstr ''uploads/none''))"
    by (simp add: dict_get_def)
  have n: "pstr ''uploads/none'' \<noteq> []"
    by (simp add: pstr_def)
  have "confirm_upload sample_env ?ev = Inr (error_response 500 ''Failed to confirm upload'')"
    by (rule confirm_upload_absent_object [OF read_config_sample authenticate_sample p k n
          sample_env_fields(1) sample_env_fields(3) sample_objects_none])
  then show ?thesis
    by (simp add: handler_def route_confirm_upload)
qed

subsection \<open>The shape of the key\<close>

lemma dec_1: "n < 10 \<Longrightarrow> dec n = [48 + n]"
  by (simp add: dec.simps)

lemma dec_2: "10 \<le> n \<Longrightarrow> n < 100 \<Longrightarrow> dec n = [48 + n div 10, 48 + n mod 10]"
  by (subst dec.simps) (simp add: dec_1)

lemma dec_3:
  "100 \<le> n \<Longrightarrow> n < 1000 \<Longrightarrow> dec n = [48 + n div 100, 48 + n div 10 mod 10, 48 + n mod 10]"
  by (subst dec.simps) (simp add: dec_2 div_mult2_eq [symmetric])

lemma dec_4:
  "1000 \<le> n \<Longrightarrow> n < 10000 \<Longrightarrow>
   dec n = [48 + n div 1000, 48 + n div 100 mod 10, 48 + n div 10 mod 10, 48 + n mod 10]"
  by (subst dec.simps) (simp add: dec_3 div_mult2_eq [symmetric])

lemma zfill_2: "n < 100 \<Longrightarrow> zfill 2 n = [48 + n div 10, 48 + n mod 10]"
  by (cases "n < 10") (simp_all add: zfill_def dec_1 dec_2)

lemma is_digit_48: "d < 10 \<Longrightarrow> is_digit (48 + d)"
  by (simp add: is_digit_def)

lemma strftime_shape:
  assumes "clock_reading t"
  shows "timestamp_shaped (strftime t)"
proof -
  from assms have y: "1000 \<le> year t" "year t < 10000"
    and r: "month t < 100" "day t < 100" "hour t < 100" "minute t < 100" "second t < 100"
    by (simp_all add: clock_reading_def)
  have d: "is_digit (48 + n div 10)" if "n < 100" for n
    using that by (intro is_digit_48) simp
  have m: "is_digit (48 + n mod 10)" for n
    by (intro is_digit_48) simp
  have y1: "is_digit (48 + year t div 1000)"
    using y by (intro is_digit_48) simp
  show ?thesis
    using y1 d [OF r(1)] d [OF r(2)] d [OF r(3)] d [OF r(4)] d [OF r(5)]
    by (simp add: strftime_def dec_4 [OF y] zfill_2 r timestamp_shaped_def pstr_def m)
qed

lemma length_hex_pad [simp]: "length (hex_pad w n) = w"
  by (simp add: hex_pad_def)

lemma hex_lower_digit: "d < 16 \<Longrightarrow> is_hex_digit (hex_lower d)"
  by (auto simp: is_hex_digit_def is_digit_def hex_lower_def)

lemma hex_pad_digits: "list_all is_hex_digit (hex_pad w n)"
  by (simp add: hex_pad_def list_all_iff hex_lower_digit)

lemma take_8_uuid_str: "take 8 (uuid_str u) = take 8 (hex_pad 32 (unat u))"
  by (simp add: uuid_str_def Let_def)

lemma random_id_shape: "random_id_shaped (take 8 (uuid_str u))"
proof -
  have "list_all is_hex_digit (take 8 (hex_pad 32 (unat u)))"
    using hex_pad_digits [of 32 "unat u"]
    by (auto simp: list_all_iff dest: in_set_takeD)
  then show ?thesis
    by (simp add: random_id_shaped_def take_8_uuid_str)
qed

lemma issue_credentials_file_key:
  assumes "issue_credentials env bucket_name content_type (PStr file_name) = Inr r"
  shows "statusCode r = 200"
    and "response_field r ''file_key'' =
      Some (PStr (make_file_key (strftime (now env 0)) (take 8 (uuid_str (uuid4 env))) file_name))"
  using assms unfolding issue_credentials_def
  by (auto elim!: bnd_InrE simp: Let_def response_field_def pstr_def)


text \<open>
  C5. For an authenticated request to generate_presigned_url whose body carries the file
  name \<open>file_name\<close>, a 200 response returns the key
  \<^verbatim>\<open>uploads/<timestamp>_<id>_<file_name>\<close>: the timestamp is the first reading of the
  clock written \<^verbatim>\<open>YYYYMMDD_HHMMSS\<close> (fourteen digits) and the id is the first eight
  hexadecimal digits of the random UUID.
\<close>

theorem file_key_has_documented_shape:
  assumes "read_config env = Some (bucket_name, secret_arn)"
    and "authenticate_request env event secret_arn = Inr Authenticated"
    and "parse_request_body env event = Inr (Inr request_data)"
    and "dict_get request_data (pstr ''file_name'') PNone = Inr (PStr file_name)"
    and "generate_presigned_url env event = Inr r"
    and "statusCode r = 200"
    and "clock_reading (now env 0)"
  shows "response_field r ''file_key'' =
      Some (PStr (pstr ''uploads/'' @ strftime (now env 0) @ pstr ''_'' @
                  take 8 (uuid_str (uuid4 env)) @ pstr ''_'' @ file_name)) \<and>
    timestamp_shaped (strftime (now env 0)) \<and>
    random_id_shaped (take 8 (uuid_str (uuid4 env)))"
proof -
  from assms(5) obtain content_type
    where "issue_credentials env bucket_name content_type (PStr file_name) = Inr r"
    using assms(3,4,6)
    by (auto simp: generate_presigned_url_authenticated [OF assms(1,2)]
        elim!: bnd_InrE split: if_splits option.splits sum.splits)
  from issue_credentials_file_key(2) [OF this] strftime_shape [OF assms(7)] random_id_shape
  show ?thesis
    by (simp add: make_file_key_def)
qed

lemma quote_sample_file_name:
  "quote_py sample_file_name [] = Inr (pstr ''r%C3%A9sum%C3%A9%201.pdf'')"
  by (simp add: quote_py_def sample_file_name_def pstr_def utf8_char_def quote_from_bytes_def
      quoter_def always_safe_def hex_upper_def)

lemma strftime_sample: "strftime (now sample_env 0) = pstr ''20250309_070501''"
  by (simp add: strftime_def sample_env_fields dec_4 zfill_2 pstr_def)

lemma unique_id_sample: "take 8 (uuid_str (uuid4 sample_env)) = pstr ''1234abcd''"
  by (simp add: take_8_uuid_str sample_env_fields hex_pad_def hex_lower_def pstr_def upt_rec)

lemma issue_credentials_sample:
  "\<exists>r. issue_credentials sample_env (pstr ''media'') content_type (PStr sample_file_name) = Inr r"
  by (simp add: issue_credentials_def quote_sample_file_name Let_def sample_env_def
      presigned_post_kwargs_def subscript_def pstr_def)

lemma generate_presigned_url_sample:
  "\<exists>r. generate_presigned_url sample_env
      (request ''/presigned-url'' ''Bearer s3cret'' (PStr body_named)) = Inr r \<and>
     statusCode r = 200"
proof -
  obtain r where r: "issue_credentials sample_env (pstr ''media'')
      (PStr (pstr ''application/octet-stream'')) (PStr sample_file_name) = Inr r"
    using issue_credentials_sample by blast
  have n: "sample_file_name \<noteq> []"
    by (simp add: sample_file_name_def)
  have d: "pstr ''content_type'' \<noteq> pstr ''file_name''"
    "pstr ''file_size'' \<noteq> pstr ''file_name''"
    by (simp_all add: pstr_def)
  have "generate_presigned_url sample_env
      (request ''/presigned-url'' ''Bearer s3cret'' (PStr body_named)) = Inr r"
    by (simp add: generate_presigned_url_authenticated [OF read_config_sample authenticate_sample]
        parse_request_body_request sample_loads_named dict_get_PDict sample_env_fields r n d)
  with issue_credentials_file_key(1) [OF r] show ?thesis by blast
qed

theorem file_key_has_documented_shape_witness:
  "response_field
     (handler sample_env (request ''/presigned-url'' ''Bearer s3cret'' (PStr body_named)))
     ''file_key'' =
     Some (PStr (pstr ''uploads/20250309_070501_1234abcd_'' @ sample_file_name)) \<and>
   timestamp_shaped (pstr ''20250309_070501'') \<and>
   random_id_shaped (pstr ''1234abcd'')"
proof -
  let ?ev = "request ''/presigned-url'' ''Bearer s3cret'' (PStr body_named)"
  obtain r where r: "generate_presigned_url sample_env ?ev = Inr r" and s: "statusCode r = 200"
    using generate_presigned_url_sample by blast
  have p: "parse_request_body sample_env ?ev =
      Inr (Inr (PDict [(pstr ''file_name'', PStr sample_file_name)]))"
    by (simp add: parse_request_body_request sample_loads_named)
  have f: "dict_get (PDict [(pstr ''file_name'', PStr sample_file_name)]) (pstr ''file_name'')
      PNone = Inr (PStr sample_file_name)"
    by (simp add: dict_get_def)
  have c: "clock_reading (now sample_env 0)"
    by (simp add: clock_reading_def sample_env_fields)
  have h: "handler sample_env ?ev = r"
    by (simp add: handler_def route_presigned_url r)
  show ?thesis
    using file_key_has_documented_shape [OF read_config_sample authenticate_sample p f r s c]
    by (simp add: h strftime_sample unique_id_sample pstr_def)
qed

subsection \<open>UTF-8: decoding what was encoded\<close>


lemma div_mod_split:
  fixes c m n :: nat
  shows "c div (m * n) * (m * n) + c div m mod n * m + c mod m = c"
proof -
  have "c div (m * n) = c div m div n"
    by (simp add: div_mult2_eq)
  then have "c div (m * n) * (m * n) + c div m mod n * m =
      (c div m div n * n + c div m mod n) * m"
    by (simp only: algebra_simps)
  also have "\<dots> = c div m * m"
    by simp
  finally show ?thesis
    by simp
qed

lemma three_bytes:
  fixes c :: nat
  assumes "0x800 \<le> c" "c < 0x10000" "\<not> (0xD800 \<le> c \<and> c \<le> 0xDFFF)"
  obtains a b l where "a = c div 4096" "b = c div 64 mod 64" "l = c mod 64"
    "c = a * 4096 + b * 64 + l" "a < 16" "b < 64" "l < 64"
    "a = 0 \<longrightarrow> 32 \<le> b" "a = 13 \<longrightarrow> b < 32"
proof -
  define a where "a = c div 4096"
  define b where "b = c div 64 mod 64"
  define l where "l = c mod 64"
  have c: "c = a * 4096 + b * 64 + l"
    using div_mod_split [of c 64 64] by (simp add: a_def b_def l_def)
  have b: "b < 64" and l: "l < 64"
    by (simp_all add: b_def l_def)
  have a: "a < 16"
    using assms(2) c by linarith
  have z: "a = 0 \<longrightarrow> 32 \<le> b"
    using assms(1) c l by linarith
  have s: "a = 13 \<longrightarrow> b < 32"
    using assms(3) c l b by linarith
  show thesis
    using that [OF a_def b_def l_def c a b l z s] .
qed

lemma four_bytes:
  fixes c :: nat
  assumes "0x10000 \<le> c" "c < 0x110000"
  obtains a b e l where "a = c div 262144" "b = c div 4096 mod 64" "e = c div 64 mod 64"
    "l = c mod 64" "c = a * 262144 + b * 4096 + e * 64 + l" "a < 5" "b < 64" "e < 64" "l < 64"
    "a = 0 \<longrightarrow> 16 \<le> b" "a = 4 \<longrightarrow> b < 16"
proof -
  define a where "a = c div 262144"
  define b where "b = c div 4096 mod 64"
  define e where "e = c div 64 mod 64"
  define l where "l = c mod 64"
  have "c mod 4096 = 64 * e + l"
    using mod_mult2_eq [of c 64 64] by (simp add: e_def l_def)
  then have c: "c = a * 262144 + b * 4096 + e * 64 + l"
    using div_mod_split [of c 4096 64] by (simp add: a_def b_def)
  have b: "b < 64" and e: "e < 64" and l: "l < 64"
    by (simp_all add: b_def e_def l_def)
  have a: "a < 5"
    using assms(2) c by linarith
  have z: "a = 0 \<longrightarrow> 16 \<le> b"
    using assms(1) c e l by linarith
  have s: "a = 4 \<longrightarrow> b < 16"
    using assms(2) c by linarith
  show thesis
    using that [OF a_def b_def e_def l_def c a b e l z s] .
qed

lemma utf8_char_cases [consumes 1, case_names one two three four]:
  assumes "utf8_char c = Some bs"
  obtains "c < 0x80" "bs = [c]"
  | q m where "bs = [0xC0 + q, 0x80 + m]" "c = q * 64 + m" "2 \<le> q" "q < 32" "m < 64"
  | a b l where "bs = [0xE0 + a, 0x80 + b, 0x80 + l]" "c = a * 4096 + b * 64 + l"
      "a < 16" "b < 64" "l < 64" "a = 0 \<longrightarrow> 32 \<le> b" "a = 13 \<longrightarrow> b < 32"
  | a b e l where "bs = [0xF0 + a, 0x80 + b, 0x80 + e, 0x80 + l]"
      "c = a * 262144 + b * 4096 + e * 64 + l"
      "a < 5" "b < 64" "e < 64" "l < 64" "a = 0 \<longrightarrow> 16 \<le> b" "a = 4 \<longrightarrow> b < 16"
proof -
  consider (c1) "c < 0x80"
    | (c2) "0x80 \<le> c" "c < 0x800"
    | (c3) "0x800 \<le> c" "c < 0x10000" "\<not> (0xD800 \<le> c \<and> c \<le> 0xDFFF)"
    | (c4) "0x10000 \<le> c" "c < 0x110000"
    using assms by (auto simp: utf8_char_def split: if_splits)
  then show thesis
  proof cases
    case c1
    with assms have "bs = [c]"
      by (simp add: utf8_char_def)
    with c1 show thesis by (rule that(1))
  next
    case c2
    with assms have bs: "bs = [0xC0 + c div 64, 0x80 + c mod 64]"
      by (simp add: utf8_char_def)
    have "c = c div 64 * 64 + c mod 64" "2 \<le> c div 64" "c div 64 < 32" "c mod 64 < 64"
      using c2 by simp_all
    with bs show thesis
      by (rule that(2))
  next
    case c3
    with assms have bs: "bs = [0xE0 + c div 4096, 0x80 + c div 64 mod 64, 0x80 + c mod 64]"
      by (simp add: utf8_char_def)
    from c3 obtain a b l where d: "a = c div 4096" "b = c div 64 mod 64" "l = c mod 64"
      and f: "c = a * 4096 + b * 64 + l" "a < 16" "b < 64" "l < 64"
      "a = 0 \<longrightarrow> 32 \<le> b" "a = 13 \<longrightarrow> b < 32"
      by (rule three_bytes)
    from bs d have "bs = [0xE0 + a, 0x80 + b, 0x80 + l]"
      by simp
    then show thesis
      using f by (rule that(3))
  next
    case c4
    with assms have bs: "bs = [0xF0 + c div 262144, 0x80 + c div 4096 mod 64,
        0x80 + c div 64 mod 64, 0x80 + c mod 64]"
      by (simp add: utf8_char_def)
    from c4 obtain a b e l where d: "a = c div 262144" "b = c div 4096 mod 64"
      "e = c div 64 mod 64" "l = c mod 64"
      and f: "c = a * 262144 + b * 4096 + e * 64 + l"
      "a < 5" "b < 64" "e < 64" "l < 64" "a = 0 \<longrightarrow> 16 \<le> b" "a = 4 \<longrightarrow> b < 16"
      by (rule four_bytes)
    from bs d have "bs = [0xF0 + a, 0x80 + b, 0x80 + e, 0x80 + l]"
      by simp
    then show thesis
      using f by (rule that(4))
  qed
qed

lemma utf8_char_bytes:
  assumes "utf8_char c = Some bs"
  shows "list_all (\<lambda>b. b < 256) bs"
  using assms by (cases rule: utf8_char_cases) simp_all

lemma decode_encoded_char:
  assumes "utf8_char c = Some bs"
  shows "utf8_decode_replace (bs @ rest) = c # utf8_decode_replace rest"
  using assms
proof (cases rule: utf8_char_cases)
  case one
  then show ?thesis
    by (simp add: utf8_step_def)
next
  case (two q m)
  then show ?thesis
    by (simp add: utf8_step_def cont_def)
next
  case (three a b l)
  then show ?thesis
    by (auto simp: utf8_step_def cont_def second3_def)
next
  case (four a b e l)
  then show ?thesis
    by (auto simp: utf8_step_def cont_def second4_def)
qed

lemma utf8_encode_ConsE:
  assumes "utf8_encode (c # cs) = Inr bs"
  obtains b1 rest where "utf8_char c = Some b1" "utf8_encode cs = Inr rest" "bs = b1 @ rest"
  using assms by (auto split: option.splits elim!: bnd_InrE)

lemma utf8_decode_encode:
  "utf8_encode s = Inr bs \<Longrightarrow> utf8_decode_replace bs = s"
proof (induction s arbitrary: bs)
  case Nil
  then show ?case by simp
next
  case (Cons c cs)
  from Cons.prems obtain b1 rest
    where "utf8_char c = Some b1" "utf8_encode cs = Inr rest" "bs = b1 @ rest"
    by (rule utf8_encode_ConsE)
  then show ?case
    by (simp add: decode_encoded_char Cons.IH)
qed

lemma utf8_encode_bytes:
  "utf8_encode s = Inr bs \<Longrightarrow> list_all (\<lambda>b. b < 256) bs"
proof (induction s arbitrary: bs)
  case Nil
  then show ?case by simp
next
  case (Cons c cs)
  from Cons.prems obtain b1 rest
    where "utf8_char c = Some b1" "utf8_encode cs = Inr rest" "bs = b1 @ rest"
    by (rule utf8_encode_ConsE)
  then show ?case
    by (simp add: utf8_char_bytes Cons.IH)
qed

subsection \<open>Percent-encoding: unquoting what was quoted\<close>

lemma always_safe_ascii: "always_safe b \<Longrightarrow> b < 128 \<and> b \<noteq> 37"
  by (auto simp: always_safe_def)

lemma hex_upper_ascii: "d < 16 \<Longrightarrow> hex_upper d < 128"
  by (simp add: hex_upper_def)

lemma hexval_hex_upper: "d < 16 \<Longrightarrow> hexval (hex_upper d) = Some d"
  by (simp add: hexval_def hex_upper_def)

lemma percent_encode_Nil [simp]: "percent_encode [] = []"
  by (simp add: percent_encode_def)

lemma percent_encode_Cons:
  "percent_encode (b # bs) =
     (if always_safe b then [b] else [37, hex_upper (b div 16), hex_upper (b mod 16)]) @
     percent_encode bs"
  by (simp add: percent_encode_def)

lemma percent_encode_ascii:
  "list_all (\<lambda>b. b < 256) bs \<Longrightarrow> list_all (\<lambda>c. c < 128) (percent_encode bs)"
proof (induction bs)
  case Nil
  then show ?case by simp
next
  case (Cons b bs)
  then have "b div 16 < 16" "b mod 16 < 16"
    by (simp_all add: div_less_iff_less_mult)
  with Cons show ?case
    by (simp add: percent_encode_Cons always_safe_ascii hex_upper_ascii)
qed

lemma percent_encode_safe: "list_all always_safe bs \<Longrightarrow> percent_encode bs = bs"
  by (induction bs) (simp_all add: percent_encode_Cons)

lemma unquote_to_bytes_Cons:
  assumes "c \<noteq> 37"
  shows "unquote_to_bytes (c # r) = c # unquote_to_bytes r"
proof (cases r)
  case Nil
  then show ?thesis by simp
next
  case (Cons a r')
  with assms show ?thesis by (cases r') simp_all
qed

lemma unquote_to_bytes_escape:
  "x < 16 \<Longrightarrow> y < 16 \<Longrightarrow>
   unquote_to_bytes (37 # hex_upper x # hex_upper y # r) = (16 * x + y) # unquote_to_bytes r"
  by (simp add: hexval_hex_upper)

lemma unquote_to_bytes_percent_encode:
  "list_all (\<lambda>b. b < 256) bs \<Longrightarrow> unquote_to_bytes (percent_encode bs) = bs"
proof (induction bs)
  case Nil
  then show ?case by simp
next
  case (Cons b bs)
  show ?case
  proof (cases "always_safe b")
    case True
    with Cons show ?thesis
      by (simp add: percent_encode_Cons unquote_to_bytes_Cons always_safe_ascii)
  next
    case False
    from Cons.prems have "b div 16 < 16" "b mod 16 < 16"
      by (simp_all add: div_less_iff_less_mult)
    with False Cons show ?thesis
      by (simp add: percent_encode_Cons unquote_to_bytes_escape del: unquote_to_bytes.simps)
  qed
qed

lemma unquote_to_bytes_plain: "37 \<notin> set s \<Longrightarrow> unquote_to_bytes s = s"
proof (induction s)
  case Nil
  then show ?case by simp
next
  case (Cons c s)
  then show ?case
    by (simp add: unquote_to_bytes_Cons del: unquote_to_bytes.simps)
qed

lemma utf8_decode_replace_ascii:
  "list_all (\<lambda>c. c < 128) s \<Longrightarrow> utf8_decode_replace s = s"
  by (induction s) (simp_all add: utf8_step_def)

lemma unquote_runs_ascii:
  "list_all (\<lambda>c. c < 128) s \<Longrightarrow>
   unquote_runs acc s = utf8_decode_replace (unquote_to_bytes (acc @ s))"
  by (induction s arbitrary: acc) simp_all

lemma unquote_py_ascii:
  assumes "list_all (\<lambda>c. c < 128) s"
  shows "unquote_py s = utf8_decode_replace (unquote_to_bytes s)"
proof (cases "37 \<in> set s")
  case True
  then show ?thesis
    by (simp add: unquote_py_def unquote_runs_ascii [OF assms])
next
  case False
  then show ?thesis
    by (simp add: unquote_py_def unquote_to_bytes_plain utf8_decode_replace_ascii [OF assms])
qed

lemma quoter_no_safe:
  "quoter [] = (\<lambda>b. if always_safe b then [b]
                       else [37, hex_upper (b div 16), hex_upper (b mod 16)])"
  by (rule ext) (simp add: quoter_def)

lemma quote_from_bytes_percent_encode: "quote_from_bytes bs [] = percent_encode bs"
  by (simp add: quote_from_bytes_def percent_encode_safe quoter_no_safe)
    (simp add: percent_encode_def)

lemma quote_py_percent_encode:
  assumes "quote_py s [] = Inr enc"
  obtains bs where "utf8_encode s = Inr bs" and "enc = percent_encode bs"
proof (cases "s = []")
  case True
  with assms have "utf8_encode s = Inr []" "enc = percent_encode []"
    by (simp_all add: quote_py_def)
  then show thesis by (rule that)
next
  case False
  with assms obtain bs where "utf8_encode s = Inr bs" "enc = quote_from_bytes bs []"
    by (auto simp: quote_py_def elim!: bnd_InrE)
  then show thesis
    by (simp add: quote_from_bytes_percent_encode that)
qed

lemma unquote_py_quote_py:
  assumes "quote_py s [] = Inr enc"
  shows "unquote_py enc = s"
proof -
  from assms obtain bs where bs: "utf8_encode s = Inr bs" and enc: "enc = percent_encode bs"
    by (rule quote_py_percent_encode)
  note bytes = utf8_encode_bytes [OF bs]
  have "unquote_py enc = utf8_decode_replace (unquote_to_bytes enc)"
    unfolding enc by (rule unquote_py_ascii [OF percent_encode_ascii [OF bytes]])
  also have "\<dots> = utf8_decode_replace bs"
    by (simp add: enc unquote_to_bytes_percent_encode [OF bytes])
  also have "\<dots> = s"
    by (rule utf8_decode_encode [OF bs])
  finally show ?thesis .
qed

lemma utf8_encode_defined:
  "list_all (\<lambda>c. c < 0x110000 \<and> \<not> (0xD800 \<le> c \<and> c \<le> 0xDFFF)) s \<Longrightarrow>
   \<exists>bs. utf8_encode s = Inr bs"
proof (induction s)
  case Nil
  then show ?case by simp
next
  case (Cons c cs)
  then obtain rest where "utf8_encode cs = Inr rest"
    by auto
  moreover from Cons.prems have "utf8_char c \<noteq> None"
    by (simp add: utf8_char_def)
  ultimately show ?case
    by auto
qed

lemma quote_py_defined:
  assumes "list_all (\<lambda>c. c < 0x110000 \<and> \<not> (0xD800 \<le> c \<and> c \<le> 0xDFFF)) s"
  shows "\<exists>enc. quote_py s safe = Inr enc"
  using utf8_encode_defined [OF assms] by (auto simp: quote_py_def)

lemma quote_py_surrogate:
  "quote_py [0xD800] safe = Inl (Exn UnicodeEncodeError (pstr ''surrogates not allowed''))"
  by (simp add: quote_py_def utf8_char_def)

subsection \<open>The stored file name\<close>

lemma decode_original_filename_decoded:
  "map_of md (pstr ''original-filename'') = Some stored \<Longrightarrow> unq stored = Inr decoded \<Longrightarrow>
   decode_original_filename unq md = dict_set md (pstr ''original-filename'') decoded"
  by (simp add: decode_original_filename_def)

lemma decode_original_filename_raises:
  "map_of md (pstr ''original-filename'') = Some stored \<Longrightarrow> unq stored = Inl e \<Longrightarrow>
   decode_original_filename unq md = md"
  by (simp add: decode_original_filename_def)

lemma describe_object_found:
  assumes "head_object env bucket_name key = Inr obj"
    and "ContentLength obj = Some n" "ContentType obj = Some ct" "LastModified obj = Some lm"
  shows "\<exists>r. describe_object unq env bucket_name (PStr key) = Inr r \<and> statusCode r = 200 \<and>
    response_field r ''metadata'' =
      Some (PDict (map (\<lambda>(k, v). (k, PStr v))
        (decode_original_filename unq (case Metadata obj of None \<Rightarrow> [] | Some m \<Rightarrow> m))))"
  using assms
  by (simp add: describe_object_def required_def Let_def response_field_def pstr_def)

lemma issue_credentials_posts:
  assumes "issue_credentials env bucket_name content_type (PStr file_name) = Inr issued"
    and "quote_py file_name [] = Inr encoded"
  shows "\<exists>post. generate_presigned_post env
      (presigned_post_kwargs bucket_name
         (make_file_key (strftime (now env 0)) (take 8 (uuid_str (uuid4 env))) file_name)
         content_type (upload_metadata (isoformat (now env 1)) encoded)) = Inr post"
  using assms unfolding issue_credentials_def
  by (auto simp: Let_def elim!: bnd_InrE)

text \<open>
  C4. When issuance encodes a file name (\<^verbatim>\<open>quote(file_name, safe='')\<close> returns), the
  value it hands to the storage service as \<^verbatim>\<open>original-filename\<close> is the percent-encoding
  of the UTF-8 bytes of the name with no character treated as safe, and URL-decoding
  that value gives the name back, which confirmation puts in place of the stored value.
  When the decoder raises, the metadata stays as stored; and confirmation of an object
  that exists answers 200 with the metadata it decoded or kept.
\<close>

theorem original_filename_round_trip:
  assumes "quote_py file_name [] = Inr encoded"
  shows
    "(\<exists>bs. utf8_encode file_name = Inr bs \<and> encoded = percent_encode bs) \<and>
     (issue_credentials env bucket_name content_type (PStr file_name) = Inr issued \<longrightarrow>
        (\<exists>post. generate_presigned_post env
           (presigned_post_kwargs bucket_name
              (make_file_key (strftime (now env 0)) (take 8 (uuid_str (uuid4 env))) file_name)
              content_type (upload_metadata (isoformat (now env 1)) encoded)) = Inr post)) \<and>
     unquote_py encoded = file_name \<and>
     (map_of md (pstr ''original-filename'') = Some encoded \<longrightarrow>
        decode_original_filename (\<lambda>s. Inr (unquote_py s)) md =
          dict_set md (pstr ''original-filename'') file_name) \<and>
     (map_of md (pstr ''original-filename'') = Some stored \<and> unq stored = Inl e \<longrightarrow>
        decode_original_filename unq md = md) \<and>
     (head_object env' bucket_name key = Inr obj \<and> ContentLength obj = Some n \<and>
      ContentType obj = Some ct \<and> LastModified obj = Some lm \<longrightarrow>
        (\<exists>r. describe_object unq env' bucket_name (PStr key) = Inr r \<and> statusCode r = 200 \<and>
           response_field r ''metadata'' =
             Some (PDict (map (\<lambda>(k, v). (k, PStr v))
               (decode_original_filename unq
                  (case Metadata obj of None \<Rightarrow> [] | Some m \<Rightarrow> m))))))"
proof -
  from assms obtain bs where "utf8_encode file_name = Inr bs" "encoded = percent_encode bs"
    by (rule quote_py_percent_encode)
  then have a: "\<exists>bs. utf8_encode file_name = Inr bs \<and> encoded = percent_encode bs"
    by blast
  note b = issue_credentials_posts [OF _ assms]
  note c = unquote_py_quote_py [OF assms]
  have d: "map_of md (pstr ''original-filename'') = Some encoded \<longrightarrow>
      decode_original_filename (\<lambda>s. Inr (unquote_py s)) md =
        dict_set md (pstr ''original-filename'') file_name"
    by (simp add: decode_original_filename_def c)
  show ?thesis
    using a b c d decode_original_filename_raises describe_object_found
    by blast
qed

theorem original_filename_round_trip_witness:
  "unquote_py (pstr ''r%C3%A9sum%C3%A9%201.pdf'') = sample_file_name \<and>
   decode_original_filename (\<lambda>s. Inr (unquote_py s)) sample_metadata =
     [(pstr ''uploaded-at'', pstr ''2025-03-09T07:05:01.000001''),
      (pstr ''original-filename'', sample_file_name)] \<and>
   decode_original_filename (\<lambda>s. Inl (Exn ValueError (pstr ''bad escape''))) sample_metadata =
     sample_metadata \<and>
   (\<exists>r. describe_object (\<lambda>s. Inl (Exn ValueError (pstr ''bad escape''))) sample_env
          (pstr ''media'') (PStr sample_key) = Inr r \<and>
        statusCode r = 200 \<and>
        response_field r ''metadata'' =
          Some (PDict (map (\<lambda>(k, v). (k, PStr v)) sample_metadata))) \<and>
   (\<exists>post. generate_presigned_post sample_env
      (presigned_post_kwargs (pstr ''media'') sample_key (PStr (pstr ''application/pdf''))
         (upload_metadata (isoformat (now sample_env 1)) (pstr ''r%C3%A9sum%C3%A9%201.pdf''))) =
      Inr post)"
proof -
  let ?enc = "pstr ''r%C3%A9sum%C3%A9%201.pdf''"
  let ?bad = "\<lambda>s::pystr. Inl (Exn ValueError (pstr ''bad escape'')) :: exn + pystr"
  obtain issued where i: "issue_credentials sample_env (pstr ''media'')
      (PStr (pstr ''application/pdf'')) (PStr sample_file_name) = Inr issued"
    using issue_credentials_sample by blast
  have m: "map_of sample_metadata (pstr ''original-filename'') = Some ?enc"
    by (simp add: sample_metadata_def pstr_def)
  have f: "?bad ?enc = Inl (Exn ValueError (pstr ''bad escape''))"
    by simp
  have h: "head_object sample_env (pstr ''media'') sample_key = Inr sample_object"
    by (simp add: sample_env_fields s3_head_object_def sample_objects_def)
  have o: "ContentLength sample_object = Some 1024"
    "ContentType sample_object = Some (pstr ''application/pdf'')"
    "LastModified sample_object = Some (pstr ''2025-03-09T07:06:00+00:00'')"
    "Metadata sample_object = Some sample_metadata"
    by (simp_all add: sample_object_def)
  have k: "make_file_key (strftime (now sample_env 0)) (take 8 (uuid_str (uuid4 sample_env)))
      sample_file_name = sample_key"
    by (simp add: strftime_sample unique_id_sample sample_key_def)
  have s: "dict_set sample_metadata (pstr ''original-filename'') sample_file_name =
     [(pstr ''uploaded-at'', pstr ''2025-03-09T07:05:01.000001''),
      (pstr ''original-filename'', sample_file_name)]"
    by (simp add: sample_metadata_def pstr_def)
  note T = original_filename_round_trip [where file_name = sample_file_name and encoded = ?enc
      and env = sample_env and bucket_name = "pstr ''media''"
      and content_type = "PStr (pstr ''application/pdf'')" and issued = issued
      and md = sample_metadata and stored = ?enc and unq = ?bad
      and e = "Exn ValueError (pstr ''bad escape'')" and env' = sample_env
      and key = sample_key and obj = sample_object and n = 1024
      and ct = "pstr ''application/pdf''" and lm = "pstr ''2025-03-09T07:06:00+00:00''",
      OF quote_sample_file_name]
  from T m have a: "unquote_py ?enc = sample_file_name"
    and b: "decode_original_filename (\<lambda>s. Inr (unquote_py s)) sample_metadata =
       dict_set sample_metadata (pstr ''original-filename'') sample_file_name"
    and c: "decode_original_filename ?bad sample_metadata = sample_metadata"
    by simp_all
  from T h o have "\<exists>r. describe_object ?bad sample_env (pstr ''media'') (PStr sample_key) = Inr r \<and>
        statusCode r = 200 \<and>
        response_field r ''metadata'' =
          Some (PDict (map (\<lambda>(k, v). (k, PStr v)) (decode_original_filename ?bad sample_metadata)))"
    by simp
  then have d: "\<exists>r. describe_object ?bad sample_env (pstr ''media'') (PStr sample_key) = Inr r \<and>
        statusCode r = 200 \<and>
        response_field r ''metadata'' = Some (PDict (map (\<lambda>(k, v). (k, PStr v)) sample_metadata))"
    by (simp only: c)
  from T i have e: "\<exists>post. generate_presigned_post sample_env
      (presigned_post_kwargs (pstr ''media'') sample_key (PStr (pstr ''application/pdf''))
         (upload_metadata (isoformat (now sample_env 1)) ?enc)) = Inr post"
    unfolding k by simp
  from a b [unfolded s] c d e show ?thesis
    by (intro conjI)
qed

end
